theory Spec2Isabelle
  imports Main "HOL-Library.AList"
begin

section \<open>Data model\<close>

text \<open>
  The embedding follows \<^verbatim>\<open>translate.service.ts\<close> (class \<^verbatim>\<open>TranslateService\<close>) and
  \<^verbatim>\<open>translate-db.service.ts\<close> (class \<^verbatim>\<open>TranslationDBService\<close>).

  A \<^verbatim>\<open>TranslationValue\<close> is a plain object from language codes to strings. It is
  modelled by the list of its own entries in the order \<^verbatim>\<open>Object.keys\<close> enumerates them;
  \<^verbatim>\<open>translation[lang]\<close> is \<open>map_of\<close>. The in-memory table is a JavaScript \<^verbatim>\<open>Map\<close>:
  \<^verbatim>\<open>get\<close> is \<open>map_of\<close>, \<^verbatim>\<open>set\<close> is \<open>AList.update\<close> (a present key keeps its place, a new
  one goes last), \<^verbatim>\<open>clear\<close> is the empty list. Properties inherited from
  \<^verbatim>\<open>Object.prototype\<close> are outside the model. A string is the list of its characters;
  the program only compares and concatenates them.
\<close>

type_synonym TranslationLanguage = string
type_synonym TranslationValue = "(string \<times> string) list"
type_synonym table = "(string \<times> TranslationValue) list"

record TranslationConfig =
  projectId :: string
  endpoint :: string
  defaultLang :: TranslationLanguage
  acceptedLanguages :: "TranslationLanguage list"
  apiKey :: "string option"
  dbName :: "string option"

text \<open>
  A promise is pending, fulfilled or rejected. The pending initialization promise
  carries the configuration its body closed over.
\<close>

datatype promise = Pending TranslationConfig | Fulfilled | Rejected

datatype js_error = TypeError | SyntaxError | InitializationFailed | Unexpected

text \<open>Every \<^verbatim>\<open>console\<close> call of the two classes, by level and message.\<close>

datatype level = Warn | Err | Info

datatype message =
    ServiceNotInitialized
  | UsingDefaultFallback
  | LanguageNotSupported TranslationLanguage "TranslationLanguage option"
  | AcceptedLanguagesMissing
  | DefaultLangNotAccepted TranslationLanguage
  | FetchFailed nat
  | ApiLoadError
  | LoadedFromCache
  | NoCachedTranslations
  | ServiceInitError
  | DbNotInitialized
  | DbInitError
  | DbSaveError
  | DbGetError
  | DbGetAllError
  | DbClearError
  | DbDeleteError

text \<open>
  What the program does to the outside, in order: console output, emissions of the two
  subjects, the remote request, the request to open the database. \<open>FallbackCall\<close> records
  a call of \<^verbatim>\<open>getTranslationFallback\<close>, so that a lookup that does not invoke it can be
  told from one that does.
\<close>

datatype event =
    Console level message
  | LangChange "TranslationLanguage option"
  | LoadingChange bool
  | Fetch string string "string option"
  | OpenDB string
  | FallbackCall string

text \<open>
  The state: the fields of \<^verbatim>\<open>TranslateService\<close> (a language value is \<open>None\<close> when the
  field holds \<^verbatim>\<open>undefined\<close>, which \<^verbatim>\<open>acceptedLanguages[0]\<close> of an empty list yields), the
  field \<^verbatim>\<open>db\<close> of \<^verbatim>\<open>TranslationDBService\<close> (the name of the open database, \<open>None\<close> when
  the field is unset or \<^verbatim>\<open>null\<close>), the contents of the object store \<^verbatim>\<open>translations\<close> in
  IndexedDB, and the events so far. The field \<^verbatim>\<open>translations\<close> is named
  \<open>translationsMap\<close> here.
\<close>

record world =
  currentLang :: "TranslationLanguage option"
  acceptedLanguages :: "TranslationLanguage list"
  translationsMap :: table
  loadingState :: bool
  langChangeSubject :: "TranslationLanguage option"
  initPromise :: "promise option"
  db :: "string option"
  idb :: table
  events :: "event list"

text \<open>
  What the host does during initialization: the answer to the remote request, whether
  \<^verbatim>\<open>openDB\<close> rejects, and whether a step of the initialization throws an exception none
  of the inner handlers catches. \<open>Response status body\<close> has \<open>body = None\<close> when the body
  is not JSON for an object.
\<close>

datatype fetch_result = NetworkError | Response nat "table option"

datatype init_stage = AtDbInit | AtLoad

record host =
  remote :: fetch_result
  open_fails :: bool
  unexpected :: "init_stage option"

datatype 'a js_result = Returns 'a | Throws js_error | Unmodelled

datatype outcome = Completed world | Threw js_error world | Waiting world

section \<open>JavaScript values\<close>

definition index0 :: "'a list \<Rightarrow> 'a option" where
  "index0 xs = (case xs of [] \<Rightarrow> None | x # _ \<Rightarrow> Some x)"

definition js_string :: "string option \<Rightarrow> string" where
  "js_string v = (case v of None \<Rightarrow> ''undefined'' | Some s \<Rightarrow> s)"

definition prop_get :: "TranslationValue \<Rightarrow> string option \<Rightarrow> string option" where
  "prop_get translation name = map_of translation (js_string name)"

definition truthy :: "string option \<Rightarrow> bool" where
  "truthy v = (case v of None \<Rightarrow> False | Some s \<Rightarrow> s \<noteq> [])"

definition response_ok :: "nat \<Rightarrow> bool" where
  "response_ok status = (200 \<le> status \<and> status \<le> 299)"

definition log :: "level \<Rightarrow> message \<Rightarrow> world \<Rightarrow> world" where
  "log lvl m w = w\<lparr>events := events w @ [Console lvl m]\<rparr>"

definition emit :: "event \<Rightarrow> world \<Rightarrow> world" where
  "emit e w = w\<lparr>events := events w @ [e]\<rparr>"

section \<open>TranslationDBService\<close>

definition DEFAULT_DB_NAME :: string where
  "DEFAULT_DB_NAME = ''translations-db''"

definition ensureDBInitialized :: "world \<Rightarrow> world" where
  "ensureDBInitialized w = (if db w = None then log Warn DbNotInitialized w else w)"

text \<open>
  The calls on \<^verbatim>\<open>this.db\<close>. With the field unset, reading a property of it throws a
  \<^verbatim>\<open>TypeError\<close>; on an open database the operation is performed.
\<close>

definition db_put :: "string \<Rightarrow> TranslationValue \<Rightarrow> world \<Rightarrow> js_error + world" where
  "db_put key v w =
     (case db w of None \<Rightarrow> Inl TypeError
      | Some _ \<Rightarrow> Inr (w\<lparr>idb := AList.update key v (idb w)\<rparr>))"

definition db_get :: "string \<Rightarrow> world \<Rightarrow> js_error + TranslationValue option" where
  "db_get key w = (case db w of None \<Rightarrow> Inl TypeError | Some _ \<Rightarrow> Inr (map_of (idb w) key))"

definition db_getAll :: "world \<Rightarrow> js_error + TranslationValue list" where
  "db_getAll w = (case db w of None \<Rightarrow> Inl TypeError | Some _ \<Rightarrow> Inr (map snd (idb w)))"

definition db_getAllKeys :: "world \<Rightarrow> js_error + string list" where
  "db_getAllKeys w = (case db w of None \<Rightarrow> Inl TypeError | Some _ \<Rightarrow> Inr (map fst (idb w)))"

definition db_clear :: "world \<Rightarrow> js_error + world" where
  "db_clear w = (case db w of None \<Rightarrow> Inl TypeError | Some _ \<Rightarrow> Inr (w\<lparr>idb := []\<rparr>))"

definition dbService_init :: "host \<Rightarrow> TranslationConfig \<Rightarrow> world \<Rightarrow> world" where
  "dbService_init h config w =
     (let name = (case dbName config of None \<Rightarrow> DEFAULT_DB_NAME | Some n \<Rightarrow> n);
          w1 = emit (OpenDB name) w
      in if open_fails h then log Err DbInitError w1 else w1\<lparr>db := Some name\<rparr>)"

definition saveToCache :: "string \<Rightarrow> TranslationValue \<Rightarrow> world \<Rightarrow> world" where
  "saveToCache key v w =
     (let w1 = ensureDBInitialized w
      in case db_put key v w1 of Inr w2 \<Rightarrow> w2 | Inl e \<Rightarrow> log Err DbSaveError w1)"

definition getFromCache :: "string \<Rightarrow> world \<Rightarrow> TranslationValue option \<times> world" where
  "getFromCache key w =
     (let w1 = ensureDBInitialized w
      in case db_get key w1 of Inr r \<Rightarrow> (r, w1) | Inl e \<Rightarrow> (None, log Err DbGetError w1))"

text \<open>
  The reducer of \<^verbatim>\<open>getAllFromCache\<close>: the entry at each index is stored under the key at
  that index, unless the key is falsy (the empty string).
\<close>

definition collect :: "table \<Rightarrow> string \<times> TranslationValue \<Rightarrow> table" where
  "collect acc kv = (if fst kv \<noteq> [] then AList.update (fst kv) (snd kv) acc else acc)"

definition getAllFromCache :: "world \<Rightarrow> table \<times> world" where
  "getAllFromCache w =
     (let w1 = ensureDBInitialized w
      in case db_getAll w1 of
           Inl e \<Rightarrow> ([], log Err DbGetAllError w1)
         | Inr allEntries \<Rightarrow>
             (case db_getAllKeys w1 of
                Inl e \<Rightarrow> ([], log Err DbGetAllError w1)
              | Inr allKeys \<Rightarrow> (foldl collect [] (zip allKeys allEntries), w1)))"

definition clearCache :: "world \<Rightarrow> world" where
  "clearCache w =
     (let w1 = ensureDBInitialized w
      in case db_clear w1 of Inr w2 \<Rightarrow> w2 | Inl e \<Rightarrow> log Err DbClearError w1)"

definition clearDB :: "world \<Rightarrow> world" where
  "clearDB w = (case db w of None \<Rightarrow> w | Some name \<Rightarrow> w\<lparr>idb := [], db := None\<rparr>)"

section \<open>TranslateService\<close>

text \<open>
  The service as its constructor leaves it, over a persistent store holding \<open>persisted\<close>
  from earlier runs: both subjects start at their initial values (\<^verbatim>\<open>loadingState\<close> at
  \<^verbatim>\<open>true\<close>), the table is empty and no initialization promise exists.
\<close>

definition new_TranslateService :: "table \<Rightarrow> world" where
  "new_TranslateService persisted =
     \<lparr>currentLang = Some ''en'', acceptedLanguages = [], translationsMap = [],
      loadingState = True, langChangeSubject = Some ''en'', initPromise = None,
      db = None, idb = persisted, events = []\<rparr>"

definition validateConfig :: "TranslationConfig \<Rightarrow> world \<Rightarrow> world" where
  "validateConfig config w =
     (let w1 = (if TranslationConfig.acceptedLanguages config = []
                then log Warn AcceptedLanguagesMissing w else w)
      in if defaultLang config \<in> set (TranslationConfig.acceptedLanguages config) then w1
         else log Warn (DefaultLangNotAccepted (defaultLang config)) w1)"

text \<open>
  \<^verbatim>\<open>await this.initPromise\<close>: a settled promise gives its outcome; on a pending one the
  caller is suspended (\<open>Waiting\<close>, with the state reached so far) until the
  initialization settles.
\<close>

definition waitForInitialization :: "world \<Rightarrow> outcome" where
  "waitForInitialization w =
     (case initPromise w of
        None \<Rightarrow> Completed (log Warn UsingDefaultFallback w)
      | Some (Pending config) \<Rightarrow> Waiting w
      | Some Fulfilled \<Rightarrow> Completed w
      | Some Rejected \<Rightarrow> Threw InitializationFailed w)"

definition isLanguageSupported :: "TranslationLanguage \<Rightarrow> world \<Rightarrow> bool" where
  "isLanguageSupported lang w =
     (if loadingState w then True else lang \<in> set (acceptedLanguages w))"

text \<open>
  \<^verbatim>\<open>setLanguage\<close>. Nothing is written ahead of its only \<^verbatim>\<open>await\<close>, so a call that is
  suspended continues, once the promise has settled, as a call made in the settled state.
\<close>

definition setLanguage :: "TranslationLanguage \<Rightarrow> world \<Rightarrow> outcome" where
  "setLanguage lang w =
     (case (if initPromise w \<noteq> None \<and> \<not> loadingState w then waitForInitialization w
            else Completed w) of
        Completed w1 \<Rightarrow>
          (let unsupported = \<not> isLanguageSupported lang w1;
               w2 = (if unsupported
                     then log Warn (LanguageNotSupported lang (index0 (acceptedLanguages w1))) w1
                     else w1);
               lang' = (if unsupported then index0 (acceptedLanguages w1) else Some lang)
           in Completed (emit (LangChange lang')
                (w2\<lparr>currentLang := lang', langChangeSubject := lang'\<rparr>)))
      | Threw e w1 \<Rightarrow> Threw e w1
      | Waiting w1 \<Rightarrow> Waiting w1)"

text \<open>
  \<^verbatim>\<open>getTranslationFallback\<close>. \<^verbatim>\<open>languages[0]\<close> is the first own key of the record and
  \<^verbatim>\<open>translation[languages[0]]\<close> the value of its first entry.
\<close>

definition getTranslationFallback :: "string \<Rightarrow> world \<Rightarrow> string \<times> world" where
  "getTranslationFallback key w =
     (let w1 = emit (FallbackCall key) w
      in case map_of (translationsMap w) key of
           Some translation \<Rightarrow>
             (let defaultValue = prop_get translation (index0 (acceptedLanguages w))
              in if truthy defaultValue then (js_string defaultValue, w1)
                 else (case translation of
                         (l, v) # rest \<Rightarrow> (v, w1)
                       | [] \<Rightarrow> (key, w1)))
         | None \<Rightarrow> (key, w1))"

definition getTranslation :: "string \<Rightarrow> world \<Rightarrow> string \<times> world" where
  "getTranslation key w =
     (case map_of (translationsMap w) key of
        None \<Rightarrow> getTranslationFallback key w
      | Some translation \<Rightarrow>
          (case prop_get translation (currentLang w) of
             Some v \<Rightarrow> (v, w)
           | None \<Rightarrow> getTranslationFallback key w))"

subsection \<open>Parameter substitution\<close>

text \<open>
  \<^verbatim>\<open>GetSubstitution\<close> for a pattern without capture groups: in the replacement text
  \<^verbatim>\<open>$$\<close> stands for a dollar sign, \<^verbatim>\<open>$&\<close> for the matched text, \<^verbatim>\<open>$\<close> with a backquote for
  the text that precedes the match and \<^verbatim>\<open>$\<close> with an apostrophe for the text after it; every other
  character stands for itself.
\<close>

fun get_substitution :: "string \<Rightarrow> string \<Rightarrow> string \<Rightarrow> string \<Rightarrow> string" where
  "get_substitution matched passed after [] = []"
| "get_substitution matched passed after [c] = [c]"
| "get_substitution matched passed after (c # d # rest) =
     (if c = CHR ''$'' \<and> d = CHR ''$''
        then CHR ''$'' # get_substitution matched passed after rest
      else if c = CHR ''$'' \<and> d = CHR ''&''
        then matched @ get_substitution matched passed after rest
      else if c = CHR ''$'' \<and> d = CHR 0x60
        then passed @ get_substitution matched passed after rest
      else if c = CHR ''$'' \<and> d = CHR 0x27
        then after @ get_substitution matched passed after rest
      else c # get_substitution matched passed after (d # rest))"

text \<open>
  \<^verbatim>\<open>str.replace(regex, replacement)\<close> for a global regular expression that matches
  exactly the text \<open>pat\<close>: the occurrences of \<open>pat\<close> are found from left to right, without
  overlap; \<open>passed\<close> is the part of the string already passed.
\<close>

function replace_from :: "string \<Rightarrow> string \<Rightarrow> string \<Rightarrow> string \<Rightarrow> string" where
  "replace_from pat replacement passed [] = []"
| "replace_from pat replacement passed (c # cs) =
     (if pat \<noteq> [] \<and> take (length pat) (c # cs) = pat
      then get_substitution pat passed (drop (length pat) (c # cs)) replacement
           @ replace_from pat replacement (passed @ pat) (drop (length pat) (c # cs))
      else c # replace_from pat replacement (passed @ [c]) cs)"
  by pat_completeness auto
termination
  by (relation "measure (\<lambda>(pat, replacement, passed, s). length s)") auto

definition word_char :: "char \<Rightarrow> bool" where
  "word_char c =
     (c \<in> set ''abcdefghijklmnopqrstuvwxyzABCDEFGHIJKLMNOPQRSTUVWXYZ0123456789_'')"

definition digit_char :: "char \<Rightarrow> bool" where
  "digit_char c = (c \<in> set ''0123456789'')"

text \<open>
  \<^verbatim>\<open>new RegExp(`{${param}}`, 'g')\<close>. Between the braces, a non-empty run of digits is a
  quantifier with nothing to repeat and the constructor throws a \<^verbatim>\<open>SyntaxError\<close>; any
  other run of letters, digits and underscores gives an expression that matches the
  text \<^verbatim>\<open>{param}\<close> and nothing else. A name with another character may be regular
  expression syntax; such expressions are not modelled.
\<close>

datatype regexp = Literal string | Invalid | Other

definition new_RegExp :: "string \<Rightarrow> regexp" where
  "new_RegExp param =
     (if param \<noteq> [] \<and> list_all digit_char param then Invalid
      else if list_all word_char param then Literal (''{'' @ param @ ''}'')
      else Other)"

text \<open>
  The reducer of \<^verbatim>\<open>replaceParams\<close> over \<^verbatim>\<open>Object.keys(params)\<close>; \<^verbatim>\<open>params[param]\<close> is
  looked up in the whole object.
\<close>

fun replace_keys :: "(string \<times> string) list \<Rightarrow> string list \<Rightarrow> string \<Rightarrow> string js_result" where
  "replace_keys params [] str = Returns str"
| "replace_keys params (param # rest) str =
     (case new_RegExp param of
        Invalid \<Rightarrow> Throws SyntaxError
      | Other \<Rightarrow> Unmodelled
      | Literal pat \<Rightarrow>
          replace_keys params rest
            (replace_from pat (js_string (map_of params param)) [] str))"

definition replaceParams :: "string \<Rightarrow> (string \<times> string) list option \<Rightarrow> string js_result" where
  "replaceParams translation params =
     (case params of
        None \<Rightarrow> Returns translation
      | Some ps \<Rightarrow> replace_keys ps (map fst ps) translation)"

definition instant :: "string \<Rightarrow> (string \<times> string) list option \<Rightarrow> world \<Rightarrow> string js_result \<times> world" where
  "instant key params w =
     (if initPromise w = None then (Returns key, log Warn ServiceNotInitialized w)
      else (let r = (if loadingState w then getTranslationFallback key w
                     else getTranslation key w)
            in (replaceParams (fst r) params, snd r)))"

subsection \<open>Loading\<close>

definition loadFromCache :: "world \<Rightarrow> world" where
  "loadFromCache w =
     (let r = getAllFromCache w; cachedTranslations = fst r; w1 = snd r
      in if cachedTranslations \<noteq> []
         then log Info LoadedFromCache
                (w1\<lparr>translationsMap :=
                      foldl (\<lambda>m kv. AList.update (fst kv) (snd kv) m) (translationsMap w1)
                        cachedTranslations\<rparr>)
         else log Warn NoCachedTranslations w1)"

text \<open>
  One entry of the response: it is written to the store, then set in memory. The calls of
  \<^verbatim>\<open>saveToCache\<close> never reject, so \<^verbatim>\<open>Promise.all\<close> over the entries completes with every
  entry set.
\<close>

definition store_entry :: "world \<Rightarrow> string \<times> TranslationValue \<Rightarrow> world" where
  "store_entry w kv =
     (let w1 = saveToCache (fst kv) (snd kv) w
      in w1\<lparr>translationsMap := AList.update (fst kv) (snd kv) (translationsMap w1)\<rparr>)"

definition loadTranslations :: "host \<Rightarrow> TranslationConfig \<Rightarrow> world \<Rightarrow> world" where
  "loadTranslations h config w =
     (let w1 = emit (Fetch (endpoint config) (projectId config) (apiKey config)) w
      in case remote h of
           NetworkError \<Rightarrow> loadFromCache (log Warn ApiLoadError w1)
         | Response status body \<Rightarrow>
             if \<not> response_ok status then loadFromCache (log Warn (FetchFailed status) w1)
             else (case body of
                     None \<Rightarrow> loadFromCache (log Warn ApiLoadError w1)
                   | Some data \<Rightarrow> foldl store_entry w1 data))"

subsection \<open>Initialization\<close>

text \<open>
  A call of \<^verbatim>\<open>init\<close>, up to the point where it returns its promise. With a promise
  present it returns that promise and does nothing else. Otherwise the configuration is
  validated and the asynchronous body starts: it records the accepted languages and runs
  \<^verbatim>\<open>setLanguage\<close>, which at this point (no promise assigned yet) completes without
  waiting; the body is then suspended and its promise is assigned to \<^verbatim>\<open>initPromise\<close>.
\<close>

definition init :: "TranslationConfig \<Rightarrow> world \<Rightarrow> world" where
  "init config w =
     (if initPromise w \<noteq> None then w
      else (let w1 = validateConfig config w;
                w2 = w1\<lparr>acceptedLanguages := TranslationConfig.acceptedLanguages config\<rparr>;
                w3 = (case setLanguage (defaultLang config) w2 of
                        Completed w' \<Rightarrow> w' | Threw e w' \<Rightarrow> w' | Waiting w' \<Rightarrow> w')
            in w3\<lparr>initPromise := Some (Pending config)\<rparr>))"

text \<open>
  The guarded steps of the body after \<^verbatim>\<open>setLanguage\<close>: opening the store, then loading.
  \<open>unexpected h\<close> names a step that throws an exception of its own.
\<close>

definition init_steps :: "host \<Rightarrow> TranslationConfig \<Rightarrow> world \<Rightarrow> js_error \<times> world + world" where
  "init_steps h config w =
     (if unexpected h = Some AtDbInit then Inl (Unexpected, w)
      else (let w1 = dbService_init h config w
            in if unexpected h = Some AtLoad then Inl (Unexpected, w1)
               else Inr (loadTranslations h config w1)))"

text \<open>
  The rest of the body of a pending initialization, run to the point where its promise
  settles: the \<^verbatim>\<open>try\<close> block ends with \<^verbatim>\<open>loadingState.next(false)\<close>; the \<^verbatim>\<open>catch\<close> block logs,
  does the same and rethrows.
\<close>

definition init_resume :: "host \<Rightarrow> world \<Rightarrow> world" where
  "init_resume h w =
     (case initPromise w of
        Some (Pending config) \<Rightarrow>
          (case init_steps h config w of
             Inr w1 \<Rightarrow>
               (emit (LoadingChange False) (w1\<lparr>loadingState := False\<rparr>))
                 \<lparr>initPromise := Some Fulfilled\<rparr>
           | Inl (e, w1) \<Rightarrow>
               (emit (LoadingChange False) ((log Err ServiceInitError w1)\<lparr>loadingState := False\<rparr>))
                 \<lparr>initPromise := Some Rejected\<rparr>)
      | Some Fulfilled \<Rightarrow> w
      | Some Rejected \<Rightarrow> w
      | None \<Rightarrow> w)"

subsection \<open>Cache clearing\<close>

definition clearModuleCache :: "world \<Rightarrow> outcome" where
  "clearModuleCache w = waitForInitialization ((clearCache w)\<lparr>translationsMap := []\<rparr>)"

definition clearAllCache :: "world \<Rightarrow> outcome" where
  "clearAllCache w = waitForInitialization ((clearDB w)\<lparr>translationsMap := []\<rparr>)"

section \<open>Notions used in the statements\<close>

text \<open>The remote requests and the requests to open the database among the events.\<close>

fun is_Fetch :: "event \<Rightarrow> bool" where
  "is_Fetch (Fetch e p a) = True"
| "is_Fetch _ = False"

fun is_OpenDB :: "event \<Rightarrow> bool" where
  "is_OpenDB (OpenDB n) = True"
| "is_OpenDB _ = False"










section \<open>Runs of the service\<close>

text \<open>
  A configuration accepting English and French; a host whose remote endpoint answers
  with two records (one of them with an empty English text), a host without network and
  a host on which loading throws an exception of its own; a persistent store left by an
  earlier run, with one record under the empty key.
\<close>

definition demo_config :: TranslationConfig where
  "demo_config =
     \<lparr>projectId = ''demo'', endpoint = ''https://api.example.com/translations'',
      defaultLang = ''en'', acceptedLanguages = [''en'', ''fr''], apiKey = None,
      dbName = None\<rparr>"

definition demo_table :: table where
  "demo_table =
     [(''HELLO'', [(''en'', ''Hello''), (''fr'', ''Bonjour'')]),
      (''EMPTY'', [(''fr'', ''Vide''), (''en'', [])])]"

definition demo_host :: host where
  "demo_host = \<lparr>remote = Response 200 (Some demo_table), open_fails = False, unexpected = None\<rparr>"

definition offline_host :: host where
  "offline_host = \<lparr>remote = NetworkError, open_fails = False, unexpected = None\<rparr>"

definition faulty_host :: host where
  "faulty_host =
     \<lparr>remote = Response 200 (Some demo_table), open_fails = False, unexpected = Some AtLoad\<rparr>"

definition stored_table :: table where
  "stored_table = [([], [(''en'', ''Nameless'')]), (''HELLO'', [(''en'', ''Hello'')])]"

text \<open>The service after a completed initialization: online, and offline over the store.\<close>

definition demo_ready :: world where
  "demo_ready = init_resume demo_host (init demo_config (new_TranslateService []))"


section \<open>Properties\<close>

lemmas model_defs =
  new_TranslateService_def init_def init_resume_def init_steps_def validateConfig_def
  setLanguage_def isLanguageSupported_def emit_def log_def dbService_init_def
  loadTranslations_def response_ok_def store_entry_def saveToCache_def
  ensureDBInitialized_def db_put_def DEFAULT_DB_NAME_def Let_def
  waitForInitialization_def index0_def

lemma demo_ready_eq:
  "demo_ready =
     \<lparr>currentLang = Some ''en'', acceptedLanguages = [''en'', ''fr''],
      translationsMap = demo_table, loadingState = False,
      langChangeSubject = Some ''en'', initPromise = Some Fulfilled,
      db = Some ''translations-db'', idb = demo_table,
      events = [LangChange (Some ''en''), OpenDB ''translations-db'',
                Fetch ''https://api.example.com/translations'' ''demo'' None,
                LoadingChange False]\<rparr>"
  by (simp add: demo_ready_def demo_host_def demo_config_def demo_table_def model_defs)


text \<open>
  The scenario of the specification: after initialization the lookup gives the English
  text, after a switch to French the French one, and a missing key gives itself.
\<close>

lemma scenario_remote:
  "fst (instant ''HELLO'' None demo_ready) = Returns ''Hello''
   \<and> (case setLanguage ''fr'' demo_ready of
         Completed w \<Rightarrow> fst (instant ''HELLO'' None w) = Returns ''Bonjour''
       | Threw e w \<Rightarrow> False
       | Waiting w \<Rightarrow> False)
   \<and> fst (instant ''MISSING'' None demo_ready) = Returns ''MISSING''"
  by (simp add: demo_ready_eq demo_table_def instant_def getTranslation_def
      getTranslationFallback_def prop_get_def js_string_def replaceParams_def
      setLanguage_def waitForInitialization_def isLanguageSupported_def emit_def Let_def)

subsection \<open>Lookup\<close>

text \<open>
  C1. Lookup resolution, for every key \<open>k\<close> and every value \<open>l\<close> of the current language.
  If the table has no record for \<open>k\<close>, the lookup is the fallback resolution, and its
  result is \<open>k\<close>. If the record of \<open>k\<close> has an entry for the current language, the lookup
  returns that entry as it is and leaves the state unchanged: no call of the fallback
  resolution is recorded.
\<close>

theorem lookup_resolution:
  "(map_of (translationsMap w) k = None \<longrightarrow>
      getTranslation k (w\<lparr>currentLang := l\<rparr>) = getTranslationFallback k (w\<lparr>currentLang := l\<rparr>)
      \<and> fst (getTranslation k (w\<lparr>currentLang := l\<rparr>)) = k)
   \<and> (map_of (translationsMap w) k = Some r \<and> prop_get r l = Some v \<longrightarrow>
      getTranslation k (w\<lparr>currentLang := l\<rparr>) = (v, w\<lparr>currentLang := l\<rparr>))"
  by (simp add: getTranslation_def getTranslationFallback_def)

theorem lookup_resolution_witness:
  "fst (getTranslation ''MISSING'' (demo_ready\<lparr>currentLang := Some ''fr''\<rparr>)) = ''MISSING''
   \<and> getTranslation ''HELLO'' (demo_ready\<lparr>currentLang := Some ''fr''\<rparr>)
       = (''Bonjour'', demo_ready\<lparr>currentLang := Some ''fr''\<rparr>)"
proof -
  have a: "map_of (translationsMap demo_ready) ''MISSING'' = None"
    by (simp add: demo_ready_eq demo_table_def)
  have b: "map_of (translationsMap demo_ready) ''HELLO''
             = Some [(''en'', ''Hello''), (''fr'', ''Bonjour'')]
           \<and> prop_get [(''en'', ''Hello''), (''fr'', ''Bonjour'')] (Some ''fr'') = Some ''Bonjour''"
    by (simp add: demo_ready_eq demo_table_def prop_get_def js_string_def)
  from a b lookup_resolution [of demo_ready "''MISSING''" "Some ''fr''"]
    lookup_resolution [of demo_ready "''HELLO''" "Some ''fr''"
      "[(''en'', ''Hello''), (''fr'', ''Bonjour'')]" "''Bonjour''"]
  show ?thesis by blast
qed

lemma truthy_first_accepted:
  "truthy (prop_get r (index0 (d # ds))) = (\<exists>v. map_of r d = Some v \<and> v \<noteq> [])"
  by (auto simp: truthy_def prop_get_def index0_def js_string_def split: option.splits)

text \<open>
  C2, as stated, fails: a record can hold an entry for the first accepted language and
  the fallback resolution still not return it. After the demo run the record of
  \<open>EMPTY\<close> has the entry \<open>en\<close>, the first accepted language, with the empty text; the
  fallback resolution returns the French text.
\<close>

theorem fallback_counterexample:
  "map_of (translationsMap demo_ready) ''EMPTY'' = Some [(''fr'', ''Vide''), (''en'', [])]
   \<and> index0 (acceptedLanguages demo_ready) = Some ''en''
   \<and> map_of [(''fr'', ''Vide''), (''en'', [])] ''en'' = Some []
   \<and> fst (getTranslationFallback ''EMPTY'' demo_ready) = ''Vide''"
  by (simp add: demo_ready_eq demo_table_def getTranslationFallback_def index0_def prop_get_def
      js_string_def truthy_def emit_def)

text \<open>
  C2, amended. Fallback resolution order, for every key \<open>k\<close>. If \<open>k\<close> has a record and
  the record's entry for the first accepted language is present and not the empty
  string, that entry is returned. If \<open>k\<close> has a record with at least one entry and the
  value read under \<^verbatim>\<open>acceptedLanguages[0]\<close> is absent or empty (\<open>truthy_first_accepted\<close>
  spells this out for a non-empty list), the value of the record's first own entry is
  returned. If \<open>k\<close> has no record, or a record without entries, \<open>k\<close> itself is returned.
  In each case the call is recorded and nothing else changes.
\<close>

theorem fallback_order:
  "(map_of (translationsMap w) k = Some r \<and> index0 (acceptedLanguages w) = Some d
      \<and> map_of r d = Some v \<and> v \<noteq> [] \<longrightarrow> fst (getTranslationFallback k w) = v)
   \<and> (map_of (translationsMap w) k = Some ((l, u) # rest)
      \<and> \<not> truthy (prop_get ((l, u) # rest) (index0 (acceptedLanguages w)))
      \<longrightarrow> fst (getTranslationFallback k w) = u)
   \<and> (map_of (translationsMap w) k = None \<or> map_of (translationsMap w) k = Some []
      \<longrightarrow> fst (getTranslationFallback k w) = k)
   \<and> snd (getTranslationFallback k w) = emit (FallbackCall k) w"
  by (auto simp: getTranslationFallback_def prop_get_def js_string_def truthy_def Let_def
      split: option.splits list.splits)

theorem fallback_order_witness:
  "fst (getTranslationFallback ''HELLO'' demo_ready) = ''Hello''
   \<and> fst (getTranslationFallback ''EMPTY'' demo_ready) = ''Vide''
   \<and> fst (getTranslationFallback ''MISSING'' demo_ready) = ''MISSING''"
proof -
  have a: "map_of (translationsMap demo_ready) ''HELLO''
             = Some [(''en'', ''Hello''), (''fr'', ''Bonjour'')]
      \<and> index0 (acceptedLanguages demo_ready) = Some ''en''
      \<and> map_of [(''en'', ''Hello''), (''fr'', ''Bonjour'')] ''en'' = Some ''Hello''
      \<and> ''Hello'' \<noteq> []"
    by (simp add: demo_ready_eq demo_table_def index0_def)
  have b: "map_of (translationsMap demo_ready) ''EMPTY'' = Some ((''fr'', ''Vide'') # [(''en'', [])])
      \<and> \<not> truthy (prop_get ((''fr'', ''Vide'') # [(''en'', [])])
               (index0 (acceptedLanguages demo_ready)))"
    by (simp add: demo_ready_eq demo_table_def index0_def truthy_def prop_get_def js_string_def)
  have c: "map_of (translationsMap demo_ready) ''MISSING'' = None"
    by (simp add: demo_ready_eq demo_table_def)
  from a fallback_order [where w = demo_ready and k = "''HELLO''" and d = "''en''"
      and v = "''Hello''"]
  have "fst (getTranslationFallback ''HELLO'' demo_ready) = ''Hello''" by blast
  moreover from b fallback_order [where w = demo_ready and k = "''EMPTY''" and l = "''fr''"
      and u = "''Vide''"]
  have "fst (getTranslationFallback ''EMPTY'' demo_ready) = ''Vide''" by blast
  moreover from c fallback_order [where w = demo_ready and k = "''MISSING''"]
  have "fst (getTranslationFallback ''MISSING'' demo_ready) = ''MISSING''" by blast
  ultimately show ?thesis by blast
qed

text \<open>
  C10. The empty string is treated differently by the two steps. A record that maps the
  current language to the empty string makes the lookup return the empty string, with
  no fallback (and so does \<^verbatim>\<open>instant\<close> once the service is ready). A record that maps the
  first accepted language to the empty string does not make the fallback resolution
  stop there: it returns the value of the record's first own entry.
\<close>

theorem empty_string_asymmetry:
  "(map_of (translationsMap w) k = Some r \<and> prop_get r (currentLang w) = Some [] \<longrightarrow>
      getTranslation k w = ([], w)
      \<and> (initPromise w \<noteq> None \<and> \<not> loadingState w \<longrightarrow> instant k None w = (Returns [], w)))
   \<and> (map_of (translationsMap w) k = Some r
      \<and> prop_get r (index0 (acceptedLanguages w)) = Some [] \<longrightarrow>
      r \<noteq> [] \<and> fst (getTranslationFallback k w) = snd (hd r))"
  by (auto simp: getTranslation_def getTranslationFallback_def instant_def replaceParams_def
      truthy_def prop_get_def Let_def split: option.splits list.splits)

theorem empty_string_asymmetry_witness:
  "getTranslation ''EMPTY'' demo_ready = ([], demo_ready)
   \<and> instant ''EMPTY'' None demo_ready = (Returns [], demo_ready)
   \<and> fst (getTranslationFallback ''EMPTY'' demo_ready) = ''Vide''"
proof -
  let ?r = "[(''fr'', ''Vide''), (''en'', [])]"
  have a: "map_of (translationsMap demo_ready) ''EMPTY'' = Some ?r"
    by (simp add: demo_ready_eq demo_table_def)
  have b: "prop_get ?r (currentLang demo_ready) = Some []"
    "prop_get ?r (index0 (acceptedLanguages demo_ready)) = Some []"
    by (simp_all add: demo_ready_eq prop_get_def js_string_def index0_def)
  have c: "initPromise demo_ready \<noteq> None \<and> \<not> loadingState demo_ready"
    by (simp add: demo_ready_eq)
  from a b c empty_string_asymmetry [of demo_ready "''EMPTY''" ?r]
  show ?thesis by simp
qed

subsection \<open>Language switching\<close>

text \<open>
  C7. The postcondition of \<^verbatim>\<open>setLanguage\<close>, for every language. When the service is ready
  (initialization fulfilled, not loading) the call completes; the current language is
  the requested one if it is accepted and \<^verbatim>\<open>acceptedLanguages[0]\<close> otherwise, after a
  warning. While loading, \<^verbatim>\<open>isLanguageSupported\<close> is true of every language and the
  requested language becomes current. In both cases the call appends exactly one change
  notification, carrying the resolved language, whatever the language was before.
\<close>

theorem setLanguage_postcondition:
  "(initPromise w = Some Fulfilled \<and> \<not> loadingState w \<longrightarrow>
      (\<exists>w'. setLanguage lang w = Completed w'
         \<and> currentLang w' = (if lang \<in> set (acceptedLanguages w) then Some lang
                             else index0 (acceptedLanguages w))
         \<and> events w' = events w
              @ (if lang \<in> set (acceptedLanguages w) then []
                 else [Console Warn (LanguageNotSupported lang (index0 (acceptedLanguages w)))])
              @ [LangChange (currentLang w')]))
   \<and> (loadingState w \<longrightarrow>
      (\<exists>w'. setLanguage lang w = Completed w'
         \<and> currentLang w' = Some lang
         \<and> events w' = events w @ [LangChange (Some lang)]))
   \<and> (loadingState w \<longrightarrow> isLanguageSupported lang w)
   \<and> (\<not> loadingState w \<longrightarrow> isLanguageSupported lang w = (lang \<in> set (acceptedLanguages w)))"
  by (simp add: setLanguage_def waitForInitialization_def isLanguageSupported_def emit_def
      log_def Let_def)

theorem setLanguage_postcondition_witness:
  "(\<exists>w'. setLanguage ''fr'' demo_ready = Completed w' \<and> currentLang w' = Some ''fr''
        \<and> events w' = events demo_ready @ [LangChange (Some ''fr'')])
   \<and> (\<exists>w'. setLanguage ''de'' demo_ready = Completed w' \<and> currentLang w' = Some ''en''
        \<and> events w' = events demo_ready
             @ [Console Warn (LanguageNotSupported ''de'' (Some ''en'')), LangChange (Some ''en'')])
   \<and> (\<exists>w'. setLanguage ''de'' (new_TranslateService []) = Completed w'
        \<and> currentLang w' = Some ''de'' \<and> events w' = [LangChange (Some ''de'')])
   \<and> isLanguageSupported ''de'' (new_TranslateService [])
   \<and> \<not> isLanguageSupported ''de'' demo_ready"
proof -
  have r: "initPromise demo_ready = Some Fulfilled \<and> \<not> loadingState demo_ready"
    "acceptedLanguages demo_ready = [''en'', ''fr'']"
    by (simp_all add: demo_ready_eq)
  have l: "loadingState (new_TranslateService [])" "events (new_TranslateService []) = []"
    by (simp_all add: new_TranslateService_def)
  from r setLanguage_postcondition [of demo_ready "''fr''"]
  have a: "\<exists>w'. setLanguage ''fr'' demo_ready = Completed w' \<and> currentLang w' = Some ''fr''
        \<and> events w' = events demo_ready @ [LangChange (Some ''fr'')]"
    by auto
  from r setLanguage_postcondition [of demo_ready "''de''"]
  have b: "\<exists>w'. setLanguage ''de'' demo_ready = Completed w' \<and> currentLang w' = Some ''en''
        \<and> events w' = events demo_ready
             @ [Console Warn (LanguageNotSupported ''de'' (Some ''en'')), LangChange (Some ''en'')]"
    by (auto simp: index0_def)
  from l setLanguage_postcondition [of "new_TranslateService []" "''de''"]
  have c: "\<exists>w'. setLanguage ''de'' (new_TranslateService []) = Completed w'
        \<and> currentLang w' = Some ''de'' \<and> events w' = [LangChange (Some ''de'')]"
    by auto
  from r l setLanguage_postcondition [of "new_TranslateService []" "''de''"]
    setLanguage_postcondition [of demo_ready "''de''"]
  have d: "isLanguageSupported ''de'' (new_TranslateService [])
      \<and> \<not> isLanguageSupported ''de'' demo_ready"
    by simp
  from a b c d show ?thesis by blast
qed

text \<open>
  A call made after a failed initialization awaits the rejected promise and is rejected
  with it; such a call does not complete.
\<close>

lemma setLanguage_rejected:
  "initPromise w = Some Rejected \<Longrightarrow> \<not> loadingState w \<Longrightarrow>
   setLanguage lang w = Threw InitializationFailed w"
  by (simp add: setLanguage_def waitForInitialization_def)

subsection \<open>The store adapter before it is open\<close>

text \<open>
  C9, as stated, fails for \<^verbatim>\<open>clearDB\<close>: on an adapter that was never opened it logs
  nothing.
\<close>

theorem adapter_before_open_counterexample:
  "db (new_TranslateService demo_table) = None
   \<and> events (clearDB (new_TranslateService demo_table)) = []"
  by (simp add: new_TranslateService_def clearDB_def)

text \<open>
  C9, amended. With the database not open, \<^verbatim>\<open>saveToCache\<close>, \<^verbatim>\<open>getFromCache\<close>,
  \<^verbatim>\<open>getAllFromCache\<close> and \<^verbatim>\<open>clearCache\<close> return to their caller without an exception:
  each logs the warning, catches the \<^verbatim>\<open>TypeError\<close> of the call on the missing handle and
  logs it, and changes nothing else; the put persists nothing, the get finds nothing,
  the get-all gives the empty mapping. \<^verbatim>\<open>clearDB\<close> does nothing at all: it logs no
  warning.
\<close>

theorem adapter_before_open:
  "db w = None \<Longrightarrow>
     saveToCache key v w
       = w\<lparr>events := events w @ [Console Warn DbNotInitialized, Console Err DbSaveError]\<rparr>
   \<and> getFromCache key w
       = (None, w\<lparr>events := events w @ [Console Warn DbNotInitialized, Console Err DbGetError]\<rparr>)
   \<and> getAllFromCache w
       = ([], w\<lparr>events := events w @ [Console Warn DbNotInitialized, Console Err DbGetAllError]\<rparr>)
   \<and> clearCache w
       = w\<lparr>events := events w @ [Console Warn DbNotInitialized, Console Err DbClearError]\<rparr>
   \<and> clearDB w = w"
  by (simp add: saveToCache_def getFromCache_def getAllFromCache_def clearCache_def clearDB_def
      ensureDBInitialized_def db_put_def db_get_def db_getAll_def db_clear_def log_def Let_def)
theorem adapter_before_open_witness:
  "saveToCache ''HELLO'' [(''en'', ''Hello'')] (new_TranslateService demo_table)
     = (new_TranslateService demo_table)
         \<lparr>events := [Console Warn DbNotInitialized, Console Err DbSaveError]\<rparr>
   \<and> fst (getFromCache ''HELLO'' (new_TranslateService demo_table)) = None
   \<and> fst (getAllFromCache (new_TranslateService demo_table)) = []
   \<and> idb (clearCache (new_TranslateService demo_table)) = demo_table
   \<and> clearDB (new_TranslateService demo_table) = new_TranslateService demo_table"
proof -
  have "db (new_TranslateService demo_table) = None"
    by (simp add: new_TranslateService_def)
  from adapter_before_open [OF this, of "''HELLO''" "[(''en'', ''Hello'')]"]
  show ?thesis by (simp add: new_TranslateService_def)
qed

subsection \<open>Parameter substitution\<close>

















text \<open>
  Outside these conditions the reducer does other things: a name of digits makes the
  constructor of the regular expression throw, a dollar pattern in a value is expanded,
  and a value that holds a placeholder is filled by a later pass.
\<close>

lemma replaceParams_digit_name:
  "replaceParams ''Hi {0}'' (Some [(''0'', ''x'')]) = Throws SyntaxError"
  by (simp add: replaceParams_def new_RegExp_def digit_char_def)

lemma replaceParams_dollar_value:
  "replaceParams ''Hi {a}'' (Some [(''a'', ''$&'')]) = Returns ''Hi {a}''"
  by (simp add: replaceParams_def new_RegExp_def digit_char_def word_char_def js_string_def)

lemma replaceParams_cascade:
  "replaceParams ''Hi {a}'' (Some [(''a'', ''{b}''), (''b'', ''X'')]) = Returns ''Hi X''"
  by (simp add: replaceParams_def new_RegExp_def digit_char_def word_char_def js_string_def)




subsection \<open>Initialization\<close>

text \<open>
  Inside \<^verbatim>\<open>init\<close> the call of \<^verbatim>\<open>setLanguage\<close> completes: the other two branches of the
  case distinction there are never taken. Then: what a call of \<^verbatim>\<open>init\<close> leaves alone,
  and which events loading adds (console output apart, exactly one remote request).
\<close>

lemma setLanguage_without_promise:
  "initPromise w = None \<Longrightarrow> \<exists>w'. setLanguage lang w = Completed w'"
  by (simp add: setLanguage_def Let_def)

lemma init_present: "initPromise w \<noteq> None \<Longrightarrow> init config w = w"
  by (simp add: init_def)

lemma init_fields:
  assumes "initPromise w = None"
  shows "initPromise (init config w) = Some (Pending config)"
    and "translationsMap (init config w) = translationsMap w"
    and "idb (init config w) = idb w"
    and "db (init config w) = db w"
    and "loadingState (init config w) = loadingState w"
    and "acceptedLanguages (init config w) = TranslationConfig.acceptedLanguages config"
    and "filter is_Fetch (events (init config w)) = filter is_Fetch (events w)"
    and "filter is_OpenDB (events (init config w)) = filter is_OpenDB (events w)"
  using assms
  by (simp_all add: init_def validateConfig_def setLanguage_def Let_def emit_def log_def)


lemma getAllFromCache_events:
  assumes "\<And>l m. \<not> P (Console l m)"
  shows "filter P (events (snd (getAllFromCache w))) = filter P (events w)"
  using assms
  by (simp add: getAllFromCache_def ensureDBInitialized_def db_getAll_def db_getAllKeys_def
      log_def Let_def split: option.splits)

lemma loadFromCache_events:
  assumes "\<And>l m. \<not> P (Console l m)"
  shows "filter P (events (loadFromCache w)) = filter P (events w)"
  using assms getAllFromCache_events [of P w]
  by (simp add: loadFromCache_def log_def Let_def)

lemma store_entry_events:
  assumes "\<And>l m. \<not> P (Console l m)"
  shows "filter P (events (store_entry w kv)) = filter P (events w)"
  using assms
  by (simp add: store_entry_def saveToCache_def ensureDBInitialized_def db_put_def log_def Let_def
      split: option.splits)

lemma foldl_store_entry_events:
  assumes "\<And>l m. \<not> P (Console l m)"
  shows "filter P (events (foldl store_entry w data)) = filter P (events w)"
  using assms
proof (induction data arbitrary: w)
  case Nil
  then show ?case by simp
next
  case (Cons kv data)
  then show ?case by (simp add: store_entry_events)
qed

lemma loadTranslations_events:
  assumes "\<And>l m. \<not> P (Console l m)"
  shows "filter P (events (loadTranslations h config w))
     = filter P (events w @ [Fetch (endpoint config) (projectId config) (apiKey config)])"
  using assms
  by (simp add: loadTranslations_def Let_def emit_def log_def loadFromCache_events
      foldl_store_entry_events split: fetch_result.splits option.splits)

lemma init_steps_fetch:
  "unexpected h = None \<Longrightarrow>
   \<exists>w1. init_steps h config w = Inr w1
     \<and> filter is_Fetch (events w1) = filter is_Fetch (events w) @ [Fetch (endpoint config) (projectId config) (apiKey config)]
     \<and> (\<exists>n. filter is_OpenDB (events w1) = filter is_OpenDB (events w) @ [OpenDB n])"
  by (simp add: init_steps_def loadTranslations_events dbService_init_def Let_def emit_def log_def)

lemma init_steps_at_most:
  "length (filter is_Fetch (events (case init_steps h config w of Inl (e, w1) \<Rightarrow> w1 | Inr w1 \<Rightarrow> w1)))
     \<le> length (filter is_Fetch (events w)) + 1
   \<and> length (filter is_OpenDB (events (case init_steps h config w of Inl (e, w1) \<Rightarrow> w1 | Inr w1 \<Rightarrow> w1)))
     \<le> length (filter is_OpenDB (events w)) + 1"
  by (simp add: init_steps_def loadTranslations_events dbService_init_def Let_def emit_def log_def)

lemma init_resume_settled:
  "initPromise w \<noteq> None \<Longrightarrow> initPromise (init_resume h w) \<noteq> None"
  by (auto simp: init_resume_def emit_def log_def split: option.splits promise.splits sum.splits)

lemma unexpected_cases:
  "unexpected h = None \<or> unexpected h = Some AtDbInit \<or> unexpected h = Some AtLoad"
  by (cases "unexpected h") (auto intro: init_stage.exhaust)

lemma init_resume_pending:
  assumes "initPromise w = Some (Pending config)"
  shows "loadingState (init_resume h w) = False"
    and "initPromise (init_resume h w) = (if unexpected h = None then Some Fulfilled else Some Rejected)"
    and "last (events (init_resume h w)) = LoadingChange False"
  using assms unexpected_cases [of h]
  by (auto simp: init_resume_def init_steps_def emit_def log_def Let_def split: sum.splits)

text \<open>
  C5. \<^verbatim>\<open>init\<close> is idempotent, whatever the configurations of the two calls. A call made
  when a promise is present, pending or settled, returns that promise and changes
  nothing. So a second call made while the first is pending, or after it has settled,
  leads to the same final state as the first call alone. The whole run makes at most
  one remote request and at most one request to open the store, and exactly one of each
  unless a step throws an exception of its own.
\<close>

theorem init_idempotent:
  "(initPromise w \<noteq> None \<longrightarrow> init config' w = w)
   \<and> (initPromise w = None \<longrightarrow>
        init config' (init config w) = init config w
        \<and> init_resume h (init config' (init config w)) = init_resume h (init config w)
        \<and> init config' (init_resume h (init config w)) = init_resume h (init config w)
        \<and> length (filter is_Fetch (events (init_resume h (init config w))))
            \<le> length (filter is_Fetch (events w)) + 1
        \<and> length (filter is_OpenDB (events (init_resume h (init config w))))
            \<le> length (filter is_OpenDB (events w)) + 1
        \<and> (unexpected h = None \<longrightarrow>
             length (filter is_Fetch (events (init_resume h (init config w))))
               = length (filter is_Fetch (events w)) + 1
             \<and> length (filter is_OpenDB (events (init_resume h (init config w))))
               = length (filter is_OpenDB (events w)) + 1))"
proof (intro conjI impI)
  assume "initPromise w \<noteq> None"
  then show "init config' w = w" by (rule init_present)
next
  assume n: "initPromise w = None"
  have p: "initPromise (init config w) = Some (Pending config)"
    by (rule init_fields(1) [OF n])
  then have "initPromise (init config w) \<noteq> None" by simp
  then show same: "init config' (init config w) = init config w" by (rule init_present)
  then show "init_resume h (init config' (init config w)) = init_resume h (init config w)"
    by simp
  from p have "initPromise (init_resume h (init config w)) \<noteq> None"
    by (intro init_resume_settled) simp
  then show "init config' (init_resume h (init config w)) = init_resume h (init config w)"
    by (rule init_present)
  have ev: "events (init_resume h (init config w))
      = events (case init_steps h config (init config w) of Inl (e, w1) \<Rightarrow> log Err ServiceInitError w1 | Inr w1 \<Rightarrow> w1)
        @ [LoadingChange False]"
    using p by (auto simp: init_resume_def emit_def log_def split: sum.splits)
  from init_steps_at_most [of h config "init config w"] init_fields(7,8) [OF n, of config]
  show "length (filter is_Fetch (events (init_resume h (init config w))))
            \<le> length (filter is_Fetch (events w)) + 1"
    by (auto simp: ev log_def split: sum.splits)
  from init_steps_at_most [of h config "init config w"] init_fields(7,8) [OF n, of config]
  show "length (filter is_OpenDB (events (init_resume h (init config w))))
            \<le> length (filter is_OpenDB (events w)) + 1"
    by (auto simp: ev log_def split: sum.splits)
next
  assume n: "initPromise w = None" and u: "unexpected h = None"
  have p: "initPromise (init config w) = Some (Pending config)"
    by (rule init_fields(1) [OF n])
  from init_steps_fetch [OF u, of config "init config w"]
  obtain w1 nm where w1: "init_steps h config (init config w) = Inr w1"
    "filter is_Fetch (events w1) = filter is_Fetch (events (init config w)) @ [Fetch (endpoint config) (projectId config) (apiKey config)]"
    "filter is_OpenDB (events w1) = filter is_OpenDB (events (init config w)) @ [OpenDB nm]"
    by blast
  have ev: "events (init_resume h (init config w)) = events w1 @ [LoadingChange False]"
    using p w1(1) by (simp add: init_resume_def emit_def)
  show "length (filter is_Fetch (events (init_resume h (init config w))))
               = length (filter is_Fetch (events w)) + 1"
    by (simp add: ev w1(2) init_fields(7) [OF n])
  show "length (filter is_OpenDB (events (init_resume h (init config w))))
               = length (filter is_OpenDB (events w)) + 1"
    by (simp add: ev w1(3) init_fields(8) [OF n])
qed

theorem init_idempotent_witness:
  "init demo_config demo_ready = demo_ready
   \<and> init_resume demo_host (init demo_config (init demo_config (new_TranslateService []))) = demo_ready
   \<and> init demo_config (init_resume demo_host (init demo_config (new_TranslateService []))) = demo_ready
   \<and> length (filter is_Fetch (events demo_ready)) = 1
   \<and> length (filter is_OpenDB (events demo_ready)) = 1"
proof -
  have r: "initPromise demo_ready \<noteq> None" by (simp add: demo_ready_eq)
  have n: "initPromise (new_TranslateService []) = None" "events (new_TranslateService []) = []"
    by (simp_all add: new_TranslateService_def)
  have u: "unexpected demo_host = None" by (simp add: demo_host_def)
  from r init_idempotent [of demo_ready demo_config]
  have a: "init demo_config demo_ready = demo_ready" by blast
  from n u a init_idempotent [of "new_TranslateService []" demo_config demo_config demo_host]
  show ?thesis by (simp add: demo_ready_def)
qed

text \<open>
  C6. A first call of \<^verbatim>\<open>init\<close> leaves a pending promise. Whatever the host does, once
  the pending initialization has run (the remote table loaded, the store read instead,
  or an exception thrown by a step) the loading flag is false, its change to false is the
  last event, the promise is settled, and a caller awaiting the initialization is not
  left waiting: it continues, or is rejected when a step threw.
\<close>

theorem init_reaches_ready:
  "(initPromise w = None \<longrightarrow> initPromise (init config w) = Some (Pending config))
   \<and> (initPromise w = Some (Pending config) \<longrightarrow>
        loadingState (init_resume h w) = False
        \<and> last (events (init_resume h w)) = LoadingChange False
        \<and> initPromise (init_resume h w)
            = (if unexpected h = None then Some Fulfilled else Some Rejected)
        \<and> waitForInitialization (init_resume h w)
            = (if unexpected h = None then Completed (init_resume h w)
               else Threw InitializationFailed (init_resume h w)))"
  using init_fields(1) [of w config] init_resume_pending [of w config h]
  by (simp add: waitForInitialization_def)

theorem init_reaches_ready_witness:
  "loadingState (init demo_config (new_TranslateService []))
   \<and> \<not> loadingState (init_resume demo_host (init demo_config (new_TranslateService [])))
   \<and> \<not> loadingState (init_resume offline_host (init demo_config (new_TranslateService [])))
   \<and> \<not> loadingState (init_resume faulty_host (init demo_config (new_TranslateService [])))
   \<and> initPromise (init_resume faulty_host (init demo_config (new_TranslateService []))) = Some Rejected
   \<and> translationsMap (init_resume faulty_host (init demo_config (new_TranslateService []))) = []"
proof -
  let ?w = "init demo_config (new_TranslateService [])"
  have n: "initPromise (new_TranslateService []) = None"
    by (simp add: new_TranslateService_def)
  with init_reaches_ready [of "new_TranslateService []" demo_config]
  have p: "initPromise ?w = Some (Pending demo_config)" by blast
  have l: "loadingState ?w" by (simp add: demo_config_def model_defs)
  have t: "translationsMap (init_resume faulty_host ?w) = []"
    by (simp add: faulty_host_def demo_config_def model_defs)
  have u: "unexpected faulty_host \<noteq> None" by (simp add: faulty_host_def)
  from p l t u init_reaches_ready [of ?w demo_config demo_host]
    init_reaches_ready [of ?w demo_config offline_host]
    init_reaches_ready [of ?w demo_config faulty_host]
  show ?thesis by simp
qed

subsection \<open>Loading from the store\<close>












text \<open>When the store cannot be opened nothing is loaded, whatever it holds.\<close>

lemma load_fallback_store_closed:
  "translationsMap (init_resume (offline_host\<lparr>open_fails := True\<rparr>)
      (init demo_config (new_TranslateService stored_table))) = []"
  by (simp add: offline_host_def demo_config_def stored_table_def model_defs
      loadFromCache_def getAllFromCache_def db_getAll_def db_getAllKeys_def)

subsection \<open>Cache clearing\<close>

text \<open>
  C4. Neither cache-clear operation re-runs the load sequence, although the doc comment
  of each says that translations are reloaded after clearing. After the demo run both
  operations complete with the in-memory table empty and leave it empty: no event is
  added (no second remote request, no change of the loading flag), and the lookup of a
  key the remote table holds returns the key.
\<close>

theorem cache_clear_no_reload:
  "translationsMap demo_ready = demo_table
   \<and> fst (instant ''HELLO'' None demo_ready) = Returns ''Hello''
   \<and> clearModuleCache demo_ready = Completed (demo_ready\<lparr>translationsMap := [], idb := []\<rparr>)
   \<and> clearAllCache demo_ready = Completed (demo_ready\<lparr>translationsMap := [], idb := [], db := None\<rparr>)
   \<and> events (demo_ready\<lparr>translationsMap := [], idb := []\<rparr>) = events demo_ready
   \<and> loadingState (demo_ready\<lparr>translationsMap := [], idb := []\<rparr>) = False
   \<and> fst (instant ''HELLO'' None (demo_ready\<lparr>translationsMap := [], idb := []\<rparr>)) = Returns ''HELLO''"
  by (simp add: demo_ready_eq demo_table_def clearModuleCache_def clearAllCache_def clearCache_def
      clearDB_def db_clear_def ensureDBInitialized_def waitForInitialization_def instant_def
      getTranslation_def getTranslationFallback_def prop_get_def js_string_def replaceParams_def
      emit_def)

text \<open>
  In general, once the initialization is fulfilled each operation ends after clearing:
  awaiting the settled promise runs nothing.
\<close>

lemma cache_clear_ready:
  assumes "initPromise w = Some Fulfilled"
  shows "clearModuleCache w = Completed ((clearCache w)\<lparr>translationsMap := []\<rparr>)"
    and "clearAllCache w = Completed ((clearDB w)\<lparr>translationsMap := []\<rparr>)"
    and "filter is_Fetch (events (clearCache w)) = filter is_Fetch (events w)"
    and "events (clearDB w) = events w"
    and "loadingState (clearCache w) = loadingState w"
    and "loadingState (clearDB w) = loadingState w"
  using assms
  by (simp_all add: clearModuleCache_def clearAllCache_def clearCache_def clearDB_def db_clear_def
      ensureDBInitialized_def waitForInitialization_def log_def Let_def split: option.splits)

end
